theory Spec2Isabelle
  imports Main
begin

section \<open>Python values\<close>

text \<open>
  The functions of \<^verbatim>\<open>localstack/utils/aws/aws_responses.py\<close> are untyped: a message,
  a body or a header container is whatever the caller passes. The values that reach them
  are modelled by one datatype. A \<^verbatim>\<open>str\<close> is a list of code points below 256 (one
  \<^typ>\<open>char\<close> each), a \<^verbatim>\<open>bytes\<close> value a list of bytes, a \<^verbatim>\<open>dict\<close> an
  association list in insertion order with string keys. \<open>PObj\<close> stands for every other
  object (a set, a datetime, a class instance), named by its type.
\<close>

datatype pyval =
    PNone
  | PBool bool
  | PInt int
  | PStr string
  | PBytes string
  | PList "pyval list"
  | PDict "(string \<times> pyval) list"
  | PObj string

datatype pyerr = TypeError | KeyError

subsection \<open>Decimal and hexadecimal digits\<close>

definition digit_char :: "nat \<Rightarrow> char" where
  "digit_char d = (if d < 10 then char_of (48 + d) else char_of (87 + d))"

fun str_nat :: "nat \<Rightarrow> string" where
  "str_nat n = (if n < 10 then [digit_char n] else str_nat (n div 10) @ [digit_char (n mod 10)])"

declare str_nat.simps [simp del]

definition str_int :: "int \<Rightarrow> string" where
  "str_int i = (if i < 0 then CHR ''-'' # str_nat (nat (- i)) else str_nat (nat i))"

subsection \<open>\<^verbatim>\<open>json.dumps\<close>\<close>

text \<open>
  The encoder of the standard library with its default options
  (\<^verbatim>\<open>ensure_ascii=True\<close>, separators \<^verbatim>\<open>", "\<close> and \<^verbatim>\<open>": "\<close>). A character from the
  space to the tilde stands for itself, except the double quote and the backslash; the
  seven characters of \<^verbatim>\<open>ESCAPE_DCT\<close> get their two-character escape; every other one is
  written \<^verbatim>\<open>\u00xx\<close> with lower-case hexadecimal digits.
\<close>

definition dquote :: char where
  "dquote = CHR 0x22"

definition bslash :: char where
  "bslash = CHR 0x5C"

definition escape_char :: "char \<Rightarrow> string" where
  "escape_char c =
     (let n = (of_char c :: nat) in
      if n = 0x5C then [bslash, bslash]
      else if n = 0x22 then [bslash, dquote]
      else if n = 0x08 then [bslash, CHR ''b'']
      else if n = 0x0C then [bslash, CHR ''f'']
      else if n = 0x0A then [bslash, CHR ''n'']
      else if n = 0x0D then [bslash, CHR ''r'']
      else if n = 0x09 then [bslash, CHR ''t'']
      else if 0x20 \<le> n \<and> n \<le> 0x7E then [c]
      else [bslash, CHR ''u'', CHR ''0'', CHR ''0'', digit_char (n div 16), digit_char (n mod 16)])"

definition encode_basestring_ascii :: "string \<Rightarrow> string" where
  "encode_basestring_ascii s = dquote # concat (map escape_char s) @ [dquote]"

fun join :: "string \<Rightarrow> string list \<Rightarrow> string" where
  "join sep [] = []"
| "join sep [x] = x"
| "join sep (x # y # ys) = x @ sep @ join sep (y # ys)"

fun json_dumps :: "pyval \<Rightarrow> pyerr + string"
  and dumps_elems :: "pyval list \<Rightarrow> pyerr + string list"
  and dumps_items :: "(string \<times> pyval) list \<Rightarrow> pyerr + string list"
where
  "json_dumps PNone = Inr ''null''"
| "json_dumps (PBool b) = Inr (if b then ''true'' else ''false'')"
| "json_dumps (PInt i) = Inr (str_int i)"
| "json_dumps (PStr s) = Inr (encode_basestring_ascii s)"
| "json_dumps (PBytes b) = Inl TypeError"
| "json_dumps (PObj t) = Inl TypeError"
| "json_dumps (PList xs) =
     (case dumps_elems xs of
        Inl e \<Rightarrow> Inl e
      | Inr ys \<Rightarrow> Inr (''['' @ join '', '' ys @ '']''))"
| "json_dumps (PDict kvs) =
     (case dumps_items kvs of
        Inl e \<Rightarrow> Inl e
      | Inr ys \<Rightarrow> Inr (''{'' @ join '', '' ys @ ''}''))"
| "dumps_elems [] = Inr []"
| "dumps_elems (x # xs) =
     (case json_dumps x of
        Inl e \<Rightarrow> Inl e
      | Inr y \<Rightarrow> (case dumps_elems xs of Inl e \<Rightarrow> Inl e | Inr ys \<Rightarrow> Inr (y # ys)))"
| "dumps_items [] = Inr []"
| "dumps_items ((k, v) # kvs) =
     (case json_dumps v of
        Inl e \<Rightarrow> Inl e
      | Inr y \<Rightarrow>
          (case dumps_items kvs of
             Inl e \<Rightarrow> Inl e
           | Inr ys \<Rightarrow> Inr ((encode_basestring_ascii k @ '': '' @ y) # ys)))"

section \<open>Header containers\<close>

text \<open>
  A header container is a plain \<^verbatim>\<open>dict\<close> or a \<^verbatim>\<open>werkzeug.datastructures.Headers\<close>
  object: an ordered list of pairs that may repeat a name and that looks names up without
  regard to case.
\<close>

datatype hdrs =
    Dict "(string \<times> string) list"
  | Headers "(string \<times> string) list"

definition lower_char :: "char \<Rightarrow> char" where
  "lower_char c =
     (let n = (of_char c :: nat) in
      if (0x41 \<le> n \<and> n \<le> 0x5A) \<or> (0xC0 \<le> n \<and> n \<le> 0xDE \<and> n \<noteq> 0xD7)
      then char_of (n + 32) else c)"

definition lower :: "string \<Rightarrow> string" where
  "lower s = map lower_char s"

text \<open>\<^verbatim>\<open>d[k] = v\<close> on a dict: the value of an existing key is replaced in place.\<close>

fun dict_setitem :: "(string \<times> 'v) list \<Rightarrow> string \<Rightarrow> 'v \<Rightarrow> (string \<times> 'v) list" where
  "dict_setitem [] k v = [(k, v)]"
| "dict_setitem ((k', v') # d) k v =
     (if k' = k then (k, v) # d else (k', v') # dict_setitem d k v)"

text \<open>\<^verbatim>\<open>Headers.__getitem__\<close>: the value of the first pair whose name matches.\<close>

fun headers_getitem :: "(string \<times> string) list \<Rightarrow> string \<Rightarrow> pyerr + string" where
  "headers_getitem [] k = Inl KeyError"
| "headers_getitem ((k', v') # hs) k =
     (if lower k' = lower k then Inr v' else headers_getitem hs k)"

definition headers_contains :: "(string \<times> string) list \<Rightarrow> string \<Rightarrow> bool" where
  "headers_contains hs k = (\<exists>p \<in> set hs. lower (fst p) = lower k)"

text \<open>
  \<^verbatim>\<open>Headers.set\<close> (also \<^verbatim>\<open>__setitem__\<close>): the first pair with the name is replaced,
  every later one with the name is removed; a new name is appended.
\<close>

fun headers_set :: "(string \<times> string) list \<Rightarrow> string \<Rightarrow> string \<Rightarrow> (string \<times> string) list" where
  "headers_set [] k v = [(k, v)]"
| "headers_set ((k', v') # hs) k v =
     (if lower k' = lower k
      then (k, v) # filter (\<lambda>t. lower (fst t) \<noteq> lower k) hs
      else (k', v') # headers_set hs k v)"



section \<open>The two response classes\<close>

text \<open>
  \<^verbatim>\<open>flask.Response\<close>: the stored body iterable (\<^verbatim>\<open>response\<close>), the status code and
  the \<^verbatim>\<open>Headers\<close> object.
\<close>

record Response =
  response :: pyval
  status_code :: int
  headers :: "(string \<times> string) list"

text \<open>
  \<^verbatim>\<open>requests.models.Response\<close>: the fields the module assigns. \<open>r_content\<close> is the
  attribute \<^verbatim>\<open>_content\<close>; \<open>r_headers\<close> holds whatever object the caller passed.
\<close>

record RequestsResponse =
  r_content :: pyval
  r_status_code :: int
  r_headers :: hdrs

text \<open>\<^verbatim>\<open>str.encode('utf-8')\<close> on code points below 256.\<close>

definition utf8_char :: "char \<Rightarrow> string" where
  "utf8_char c =
     (let n = (of_char c :: nat) in
      if n < 0x80 then [c] else [char_of (0xC0 + n div 64), char_of (0x80 + n mod 64)])"

definition utf8_encode :: "string \<Rightarrow> string" where
  "utf8_encode s = concat (map utf8_char s)"

text \<open>
  The constructor \<^verbatim>\<open>Response(response, status=..., headers=...)\<close> for an integer
  status and a dict of headers, after \<^verbatim>\<open>werkzeug.wrappers.BaseResponse.__init__\<close>: the
  dict becomes a \<^verbatim>\<open>Headers\<close> object, a missing content type gets the default one, and
  a \<^verbatim>\<open>str\<close> or \<^verbatim>\<open>bytes\<close> body is stored through \<^verbatim>\<open>set_data\<close>, which also sets
  the content length. \<^verbatim>\<open>None\<close> stores the empty list, any other object is stored as
  the iterable it is.
\<close>

definition set_data :: "string \<Rightarrow> (string \<times> string) list \<Rightarrow> pyval \<times> (string \<times> string) list" where
  "set_data b hs = (PList [PBytes b], headers_set hs ''Content-Length'' (str_nat (length b)))"

definition new_Response :: "pyval \<Rightarrow> int \<Rightarrow> (string \<times> string) list \<Rightarrow> Response" where
  "new_Response body status hdict =
     (let hs = hdict;
          hs = (if headers_contains hs ''content-type'' then hs
                else headers_set hs ''Content-Type'' ''text/html; charset=utf-8'');
          (resp, hs) = (case body of
                          PNone \<Rightarrow> (PList [], hs)
                        | PStr s \<Rightarrow> set_data (utf8_encode s) hs
                        | PBytes b \<Rightarrow> set_data b hs
                        | other \<Rightarrow> (other, hs))
      in \<lparr> response = resp, status_code = status, headers = hs \<rparr>)"

text \<open>
  The property \<^verbatim>\<open>Response.data\<close> (\<^verbatim>\<open>get_data\<close>): the items of the stored iterable,
  each \<^verbatim>\<open>str\<close> encoded, joined. Joining anything but bytes raises \<^verbatim>\<open>TypeError\<close>, as
  does a body that is no iterable.
\<close>

fun encoded_items :: "pyval list \<Rightarrow> pyerr + string" where
  "encoded_items [] = Inr []"
| "encoded_items (x # xs) =
     (case (case x of PStr s \<Rightarrow> Inr (utf8_encode s) | PBytes b \<Rightarrow> Inr b | _ \<Rightarrow> Inl TypeError) of
        Inl e \<Rightarrow> Inl e
      | Inr b \<Rightarrow> (case encoded_items xs of Inl e \<Rightarrow> Inl e | Inr bs \<Rightarrow> Inr (b @ bs)))"

definition data :: "Response \<Rightarrow> pyerr + string" where
  "data r =
     (case response r of
        PList xs \<Rightarrow> encoded_items xs
      | PDict kvs \<Rightarrow> encoded_items (map (PStr \<circ> fst) kvs)
      | _ \<Rightarrow> Inl TypeError)"

text \<open>
  The property \<^verbatim>\<open>requests.models.Response.content\<close>: \<^verbatim>\<open>_content\<close>, read from the
  connection first when it is the object \<^verbatim>\<open>False\<close>; a response built by hand has no
  connection (\<^verbatim>\<open>raw is None\<close>) and reads \<^verbatim>\<open>None\<close>.
\<close>

definition content :: "RequestsResponse \<Rightarrow> pyval" where
  "content r = (if r_content r = PBool False then PNone else r_content r)"

section \<open>\<^verbatim>\<open>aws_responses.py\<close>\<close>

text \<open>
  An argument with a default value is an \<open>option\<close>: \<open>None\<close> is the call that leaves
  it out.
\<close>

definition flask_error_response :: "string \<Rightarrow> int option \<Rightarrow> string option \<Rightarrow> pyerr + Response" where
  "flask_error_response msg code_arg error_type_arg =
     (let code = (case code_arg of None \<Rightarrow> 500 | Some c \<Rightarrow> c);
          error_type = (case error_type_arg of None \<Rightarrow> ''InternalFailure'' | Some t \<Rightarrow> t);
          result = [(''Type'', PStr (if code < 500 then ''User'' else ''Server'')),
                    (''message'', PStr msg),
                    (''__type'', PStr error_type)];
          headers = [(''x-amzn-errortype'', error_type)]
      in case json_dumps (PDict result) of
           Inl e \<Rightarrow> Inl e
         | Inr body \<Rightarrow> Inr (new_Response (PStr body) code headers))"




section \<open>\<^verbatim>\<open>json.loads\<close>\<close>

text \<open>
  What a client reads from a body is what \<^verbatim>\<open>json.loads\<close> makes of it. The decoder
  follows \<^verbatim>\<open>json.decoder\<close> and \<^verbatim>\<open>json.scanner\<close>: \<^verbatim>\<open>py_scanstring\<close> in strict
  mode, \<^verbatim>\<open>JSONObject\<close>, \<^verbatim>\<open>JSONArray\<close> and \<^verbatim>\<open>scan_once\<close>. A number with a
  fraction or an exponent, a constant \<^verbatim>\<open>NaN\<close> or \<^verbatim>\<open>Infinity\<close>, and an escape
  \<^verbatim>\<open>\uxxxx\<close> of a code point from 256 on have no value in \<^typ>\<open>pyval\<close> and decode
  to \<open>None\<close>, as a malformed text does. The first argument of \<open>scan_once\<close> bounds
  the number of values read; \<open>json_loads\<close> gives it more than a text of that length
  can hold.
\<close>

definition is_ws :: "char \<Rightarrow> bool" where
  "is_ws c = (c = CHR '' '' \<or> c = CHR 0x09 \<or> c = CHR 0x0A \<or> c = CHR 0x0D)"

fun skip_ws :: "string \<Rightarrow> string" where
  "skip_ws [] = []"
| "skip_ws (c # cs) = (if is_ws c then skip_ws cs else c # cs)"

definition hex_val :: "char \<Rightarrow> nat option" where
  "hex_val c =
     (let n = (of_char c :: nat) in
      if 0x30 \<le> n \<and> n \<le> 0x39 then Some (n - 0x30)
      else if 0x61 \<le> n \<and> n \<le> 0x66 then Some (n - 0x57)
      else if 0x41 \<le> n \<and> n \<le> 0x46 then Some (n - 0x37)
      else None)"

definition unescape_char :: "char \<Rightarrow> char option" where
  "unescape_char e =
     (if e = dquote then Some dquote
      else if e = bslash then Some bslash
      else if e = CHR ''/'' then Some CHR ''/''
      else if e = CHR ''b'' then Some (CHR 0x08)
      else if e = CHR ''f'' then Some (CHR 0x0C)
      else if e = CHR ''n'' then Some (CHR 0x0A)
      else if e = CHR ''r'' then Some (CHR 0x0D)
      else if e = CHR ''t'' then Some (CHR 0x09)
      else None)"

definition unicode_escape :: "char \<Rightarrow> char \<Rightarrow> char \<Rightarrow> char \<Rightarrow> char option" where
  "unicode_escape a b c d =
     (case (hex_val a, hex_val b, hex_val c, hex_val d) of
        (Some x3, Some x2, Some x1, Some x0) \<Rightarrow>
          (if x3 = 0 \<and> x2 = 0 then Some (char_of (16 * x1 + x0)) else None)
      | _ \<Rightarrow> None)"

fun scanstring :: "string \<Rightarrow> (string \<times> string) option" where
  "scanstring [] = None"
| "scanstring (c # cs) =
     (if c = dquote then Some ([], cs)
      else if c = bslash then
        (case cs of
           [] \<Rightarrow> None
         | e # cs' \<Rightarrow>
             (if e = CHR ''u'' then
                (case cs' of
                   a # b # c' # d # rest \<Rightarrow>
                     (case unicode_escape a b c' d of
                        None \<Rightarrow> None
                      | Some x \<Rightarrow> map_option (\<lambda>(s, r). (x # s, r)) (scanstring rest))
                 | _ \<Rightarrow> None)
              else
                (case unescape_char e of
                   None \<Rightarrow> None
                 | Some x \<Rightarrow> map_option (\<lambda>(s, r). (x # s, r)) (scanstring cs'))))
      else if (of_char c :: nat) < 0x20 then None
      else map_option (\<lambda>(s, r). (c # s, r)) (scanstring cs))"

definition is_digit :: "char \<Rightarrow> bool" where
  "is_digit c = (0x30 \<le> (of_char c :: nat) \<and> (of_char c :: nat) \<le> 0x39)"

definition digits_value :: "string \<Rightarrow> nat" where
  "digits_value ds = foldl (\<lambda>a c. 10 * a + ((of_char c :: nat) - 0x30)) 0 ds"

definition scan_unsigned :: "string \<Rightarrow> (nat \<times> string) option" where
  "scan_unsigned s =
     (case s of
        [] \<Rightarrow> None
      | c # cs \<Rightarrow>
          (if \<not> is_digit c then None
           else
             (let (ds, rest) = (if c = CHR ''0'' then ([c], cs)
                                else (takeWhile is_digit s, dropWhile is_digit s))
              in case rest of
                   [] \<Rightarrow> Some (digits_value ds, rest)
                 | x # xs \<Rightarrow>
                     (if x = CHR ''.'' \<or> x = CHR ''e'' \<or> x = CHR ''E'' then None
                      else Some (digits_value ds, rest)))))"

definition scan_number :: "string \<Rightarrow> (pyval \<times> string) option" where
  "scan_number s =
     (case s of
        [] \<Rightarrow> None
      | c # cs \<Rightarrow>
          (if c = CHR ''-''
           then map_option (\<lambda>(n, r). (PInt (- int n), r)) (scan_unsigned cs)
           else map_option (\<lambda>(n, r). (PInt (int n), r)) (scan_unsigned s)))"

definition strip_literal :: "string \<Rightarrow> string \<Rightarrow> string option" where
  "strip_literal lit s = (if take (length lit) s = lit then Some (drop (length lit) s) else None)"

fun scan_once :: "nat \<Rightarrow> string \<Rightarrow> (pyval \<times> string) option"
  and JSONObject :: "nat \<Rightarrow> (string \<times> pyval) list \<Rightarrow> string \<Rightarrow> (pyval \<times> string) option"
  and JSONArray :: "nat \<Rightarrow> pyval list \<Rightarrow> string \<Rightarrow> (pyval \<times> string) option"
where
  "scan_once 0 s = None"
| "scan_once (Suc n) [] = None"
| "scan_once (Suc n) (c # cs) =
     (if c = dquote then map_option (\<lambda>(x, r). (PStr x, r)) (scanstring cs)
      else if c = CHR ''{'' then
        (case skip_ws cs of
           [] \<Rightarrow> None
         | d # ds \<Rightarrow>
             (if d = CHR ''}'' then Some (PDict [], ds)
              else if d = dquote then JSONObject n [] ds
              else None))
      else if c = CHR ''['' then
        (case skip_ws cs of
           [] \<Rightarrow> None
         | d # ds \<Rightarrow> (if d = CHR '']'' then Some (PList [], ds) else JSONArray n [] (d # ds)))
      else if c = CHR ''n'' then map_option (Pair PNone) (strip_literal ''null'' (c # cs))
      else if c = CHR ''t'' then map_option (Pair (PBool True)) (strip_literal ''true'' (c # cs))
      else if c = CHR ''f'' then map_option (Pair (PBool False)) (strip_literal ''false'' (c # cs))
      else scan_number (c # cs))"
| "JSONObject 0 pairs s = None"
| "JSONObject (Suc n) pairs s =
     (case scanstring s of
        None \<Rightarrow> None
      | Some (key, s1) \<Rightarrow>
          (case skip_ws s1 of
             [] \<Rightarrow> None
           | c # s2 \<Rightarrow>
               (if c \<noteq> CHR '':'' then None
                else
                  (case scan_once n (skip_ws s2) of
                     None \<Rightarrow> None
                   | Some (v, s3) \<Rightarrow>
                       (let pairs' = dict_setitem pairs key v in
                        case skip_ws s3 of
                          [] \<Rightarrow> None
                        | d # s4 \<Rightarrow>
                            (if d = CHR ''}'' then Some (PDict pairs', s4)
                             else if d = CHR '','' then
                               (case skip_ws s4 of
                                  [] \<Rightarrow> None
                                | q # s5 \<Rightarrow> (if q = dquote then JSONObject n pairs' s5 else None))
                             else None))))))"
| "JSONArray 0 vals s = None"
| "JSONArray (Suc n) vals s =
     (case scan_once n s of
        None \<Rightarrow> None
      | Some (v, s1) \<Rightarrow>
          (case skip_ws s1 of
             [] \<Rightarrow> None
           | d # s2 \<Rightarrow>
               (if d = CHR '']'' then Some (PList (vals @ [v]), s2)
                else if d = CHR '','' then JSONArray n (vals @ [v]) (skip_ws s2)
                else None)))"

definition json_loads :: "string \<Rightarrow> pyval option" where
  "json_loads s =
     (case scan_once (2 * length s + 2) (skip_ws s) of
        None \<Rightarrow> None
      | Some (v, rest) \<Rightarrow> (if skip_ws rest = [] then Some v else None))"

text \<open>The decoded body of a response, \<^verbatim>\<open>json.loads(r.data)\<close>, and one field of it.\<close>

definition body_json :: "Response \<Rightarrow> pyval option" where
  "body_json r = (case data r of Inl e \<Rightarrow> None | Inr b \<Rightarrow> json_loads b)"

definition body_field :: "Response \<Rightarrow> string \<Rightarrow> pyval option" where
  "body_field r k = (case body_json r of Some (PDict d) \<Rightarrow> map_of d k | _ \<Rightarrow> None)"

text \<open>
  The answer of a call that may raise, read as a client reads it: one field of the
  decoded body, and the status.
\<close>

definition result_field :: "pyerr + Response \<Rightarrow> string \<Rightarrow> pyval option" where
  "result_field res k = (case res of Inl e \<Rightarrow> None | Inr r \<Rightarrow> body_field r k)"

definition result_status :: "pyerr + Response \<Rightarrow> int option" where
  "result_status res = (case res of Inl e \<Rightarrow> None | Inr r \<Rightarrow> Some (status_code r))"

text \<open>
  The text \<^verbatim>\<open>json.dumps\<close> writes for a dict of three string fields, and the
  strings \<^verbatim>\<open>str.encode\<close> leaves as they are.
\<close>

definition three_fields :: "string \<Rightarrow> string \<Rightarrow> string \<Rightarrow> string \<Rightarrow> string \<Rightarrow> string \<Rightarrow> string" where
  "three_fields k1 v1 k2 v2 k3 v3 =
     ''{'' @ encode_basestring_ascii k1 @ '': '' @ encode_basestring_ascii v1 @ '', '' @
      encode_basestring_ascii k2 @ '': '' @ encode_basestring_ascii v2 @ '', '' @
      encode_basestring_ascii k3 @ '': '' @ encode_basestring_ascii v3 @ ''}''"

definition is_ascii :: "string \<Rightarrow> bool" where
  "is_ascii s = list_all (\<lambda>c. (of_char c :: nat) < 0x80) s"







section \<open>The template deployment engine\<close>

text \<open>
  The engine that \<^verbatim>\<open>tests/integration/test_cloudformation.py\<close> drives
  (\<^verbatim>\<open>localstack.utils.cloudformation.template_deployer\<close> and the service behind
  \<^verbatim>\<open>create_stack\<close>, \<^verbatim>\<open>validate_template\<close>, \<^verbatim>\<open>describe_stacks\<close>) is not among the
  source files. Every definition of this section is modelled from the specification.
\<close>

text \<open>Modelled from the spec: the error taxonomy of section 7; the engine's code is missing.\<close>

datatype engine_error =
    TemplateSyntaxError
  | TemplateSchemaError
  | DanglingReferenceError string
  | CyclicDependencyError "string list"
  | UnresolvedDependencyError string
  | UnsupportedResourceTypeError string
  | ResourceOperationError string string
  | StackAlreadyExistsError string
  | StackNotFoundError string

text \<open>
  Modelled from the spec: the expression forms of section 4.2 (the Expression Resolver is
  missing): literal passthrough, \<^verbatim>\<open>Ref\<close>, attribute reference, string join and a
  conditional on a parameter, inside lists and mappings of a property tree.
\<close>

datatype expr =
    Lit pyval
  | Ref string
  | GetAtt string string
  | Join string "expr list"
  | IfParam string expr expr
  | Seq "expr list"
  | Struct "(string \<times> expr) list"

text \<open>
  Modelled from the spec: Template and ResourceSpec of section 3 (the data model is
  missing). Resources keep their declaration order.
\<close>

record ParameterSpec =
  param_type :: string
  param_default :: "string option"

record ResourceSpec =
  logical_name :: string
  resource_type :: string
  properties :: "(string \<times> expr) list"
  depends_on :: "string list"

record Template =
  parameters :: "(string \<times> ParameterSpec) list"
  resources :: "ResourceSpec list"
  outputs :: "(string \<times> expr) list"

text \<open>
  Modelled from the spec: the structural decoding of section 4.1 (the Template Parser is
  missing). A decoded document is a \<^typ>\<open>pyval\<close>; a mapping with the single key
  \<^verbatim>\<open>Ref\<close>, \<^verbatim>\<open>Fn::GetAtt\<close>, \<^verbatim>\<open>Fn::Join\<close> or \<^verbatim>\<open>Fn::If\<close> is an intrinsic
  expression.
\<close>

definition intrinsic :: "(string \<times> expr) list \<Rightarrow> expr" where
  "intrinsic fs =
     (case fs of
        [(k, Lit (PStr n))] \<Rightarrow> (if k = ''Ref'' then Ref n else Struct fs)
      | [(k, Seq [Lit (PStr n), Lit (PStr a)])] \<Rightarrow>
          (if k = ''Fn::GetAtt'' then GetAtt n a else Struct fs)
      | [(k, Seq [Lit (PStr sep), Seq xs])] \<Rightarrow>
          (if k = ''Fn::Join'' then Join sep xs else Struct fs)
      | [(k, Seq [Lit (PStr c), a, b])] \<Rightarrow>
          (if k = ''Fn::If'' then IfParam c a b else Struct fs)
      | _ \<Rightarrow> Struct fs)"

fun expr_of :: "pyval \<Rightarrow> expr"
  and exprs_of :: "pyval list \<Rightarrow> expr list"
  and fields_of :: "(string \<times> pyval) list \<Rightarrow> (string \<times> expr) list"
where
  "expr_of (PList xs) = Seq (exprs_of xs)"
| "expr_of (PDict kvs) = intrinsic (fields_of kvs)"
| "expr_of v = Lit v"
| "exprs_of [] = []"
| "exprs_of (x # xs) = expr_of x # exprs_of xs"
| "fields_of [] = []"
| "fields_of ((k, v) # kvs) = (k, expr_of v) # fields_of kvs"


text \<open>
  Modelled from the spec: \<^verbatim>\<open>parse(raw_document)\<close> of section 4.1 (missing). It fails
  with \<open>TemplateSyntaxError\<close> when no format decodes the document, and with
  \<open>TemplateSchemaError\<close> when the section \<^verbatim>\<open>Resources\<close> is absent or a resource entry
  lacks a type. The serialization formats are a parameter: a list of decoders, tried in
  order; \<open>json_loads\<close> is one.
\<close>

definition dict_get :: "(string \<times> 'v) list \<Rightarrow> string \<Rightarrow> 'v option" where
  "dict_get d k = map_of d k"

definition parameter_of :: "pyval \<Rightarrow> ParameterSpec" where
  "parameter_of v =
     (case v of
        PDict kvs \<Rightarrow>
          \<lparr> param_type = (case dict_get kvs ''Type'' of Some (PStr t) \<Rightarrow> t | _ \<Rightarrow> ''String''),
            param_default = (case dict_get kvs ''Default'' of Some (PStr d) \<Rightarrow> Some d | _ \<Rightarrow> None) \<rparr>
      | _ \<Rightarrow> \<lparr> param_type = ''String'', param_default = None \<rparr>)"

definition names_of :: "pyval \<Rightarrow> string list" where
  "names_of v =
     (case v of
        PStr n \<Rightarrow> [n]
      | PList xs \<Rightarrow> concat (map (\<lambda>x. case x of PStr n \<Rightarrow> [n] | _ \<Rightarrow> []) xs)
      | _ \<Rightarrow> [])"

definition resource_of :: "string \<Rightarrow> pyval \<Rightarrow> engine_error + ResourceSpec" where
  "resource_of name v =
     (case v of
        PDict kvs \<Rightarrow>
          (case dict_get kvs ''Type'' of
             Some (PStr t) \<Rightarrow>
               Inr \<lparr> logical_name = name, resource_type = t,
                     properties = (case dict_get kvs ''Properties'' of
                                     Some (PDict ps) \<Rightarrow> fields_of ps
                                   | _ \<Rightarrow> []),
                     depends_on = (case dict_get kvs ''DependsOn'' of
                                     Some d \<Rightarrow> names_of d
                                   | None \<Rightarrow> []) \<rparr>
           | _ \<Rightarrow> Inl TemplateSchemaError)
      | _ \<Rightarrow> Inl TemplateSchemaError)"

fun resources_of :: "(string \<times> pyval) list \<Rightarrow> engine_error + ResourceSpec list" where
  "resources_of [] = Inr []"
| "resources_of ((name, v) # kvs) =
     (case resource_of name v of
        Inl e \<Rightarrow> Inl e
      | Inr r \<Rightarrow> (case resources_of kvs of Inl e \<Rightarrow> Inl e | Inr rs \<Rightarrow> Inr (r # rs)))"

definition template_of :: "pyval \<Rightarrow> engine_error + Template" where
  "template_of doc =
     (case doc of
        PDict kvs \<Rightarrow>
          (case dict_get kvs ''Resources'' of
             Some (PDict rs) \<Rightarrow>
               (case resources_of rs of
                  Inl e \<Rightarrow> Inl e
                | Inr specs \<Rightarrow>
                    Inr \<lparr> parameters = (case dict_get kvs ''Parameters'' of
                                           Some (PDict ps) \<Rightarrow> map (\<lambda>(n, v). (n, parameter_of v)) ps
                                         | _ \<Rightarrow> []),
                          resources = specs,
                          outputs = (case dict_get kvs ''Outputs'' of
                                       Some (PDict os) \<Rightarrow> fields_of os
                                     | _ \<Rightarrow> []) \<rparr>)
           | _ \<Rightarrow> Inl TemplateSchemaError)
      | _ \<Rightarrow> Inl TemplateSchemaError)"

fun decode :: "(string \<Rightarrow> pyval option) list \<Rightarrow> string \<Rightarrow> pyval option" where
  "decode [] raw = None"
| "decode (f # fs) raw = (case f raw of Some doc \<Rightarrow> Some doc | None \<Rightarrow> decode fs raw)"

text \<open>Modelled from the spec: \<^verbatim>\<open>parse(raw_document) -> Template\<close>, section 4.1 (missing).\<close>

definition parse :: "(string \<Rightarrow> pyval option) list \<Rightarrow> string \<Rightarrow> engine_error + Template" where
  "parse formats raw_document =
     (case decode formats raw_document of
        None \<Rightarrow> Inl TemplateSyntaxError
      | Some doc \<Rightarrow> template_of doc)"

text \<open>
  Modelled from the spec: the dry scan of section 4.3 (the Dependency Graph Builder is
  missing): every logical name mentioned by a \<^verbatim>\<open>Ref\<close> or an attribute reference
  anywhere in a property tree.
\<close>

fun refs_of :: "expr \<Rightarrow> string list"
  and refs_of_list :: "expr list \<Rightarrow> string list"
  and refs_of_fields :: "(string \<times> expr) list \<Rightarrow> string list"
where
  "refs_of (Lit v) = []"
| "refs_of (Ref n) = [n]"
| "refs_of (GetAtt n a) = [n]"
| "refs_of (Join sep xs) = refs_of_list xs"
| "refs_of (IfParam c a b) = refs_of a @ refs_of b"
| "refs_of (Seq xs) = refs_of_list xs"
| "refs_of (Struct fs) = refs_of_fields fs"
| "refs_of_list [] = []"
| "refs_of_list (x # xs) = refs_of x @ refs_of_list xs"
| "refs_of_fields [] = []"
| "refs_of_fields ((k, x) # fs) = refs_of x @ refs_of_fields fs"

text \<open>
  Modelled from the spec: \<^verbatim>\<open>build(template)\<close> of section 4.3 (missing). The edges of
  a resource are its explicit dependencies and the resources its properties mention. A
  name that is no resource, parameter or pseudo-parameter fails the build with
  \<open>DanglingReferenceError\<close>. The order places, again and again, the first resource in
  declaration order whose dependencies are all placed; when none can be placed the build
  fails with \<open>CyclicDependencyError\<close>, naming the resources on a cycle or behind one.
\<close>

definition pseudo_parameters :: "string list" where
  "pseudo_parameters = [''AWS::AccountId'', ''AWS::Region'', ''AWS::StackName'', ''AWS::StackId'', ''AWS::NoValue'']"

definition resource_names :: "Template \<Rightarrow> string list" where
  "resource_names t = map logical_name (resources t)"

definition dependencies :: "Template \<Rightarrow> ResourceSpec \<Rightarrow> string list" where
  "dependencies t r =
     remdups (depends_on r @ filter (\<lambda>n. n \<in> set (resource_names t)) (refs_of_fields (properties r)))"

definition dangling :: "Template \<Rightarrow> string list" where
  "dangling t =
     concat (map (\<lambda>r.
        filter (\<lambda>n. n \<notin> set (resource_names t)) (depends_on r) @
        filter (\<lambda>n. n \<notin> set (resource_names t) \<and> n \<notin> set (map fst (parameters t))
                    \<and> n \<notin> set pseudo_parameters)
               (refs_of_fields (properties r)))
      (resources t))"

fun topological_order :: "nat \<Rightarrow> (string \<times> string list) list \<Rightarrow> string list \<Rightarrow> engine_error + string list" where
  "topological_order 0 g placed = (if g = [] then Inr placed else Inl (CyclicDependencyError (map fst g)))"
| "topological_order (Suc n) g placed =
     (case find (\<lambda>p. list_all (\<lambda>d. d \<in> set placed) (snd p)) g of
        None \<Rightarrow> (if g = [] then Inr placed else Inl (CyclicDependencyError (map fst g)))
      | Some p \<Rightarrow> topological_order n (filter (\<lambda>q. fst q \<noteq> fst p) g) (placed @ [fst p]))"

record DependencyGraph =
  edges :: "(string \<times> string list) list"
  order :: "string list"

text \<open>Modelled from the spec: \<^verbatim>\<open>build(template) -> DependencyGraph\<close>, section 4.3 (missing).\<close>

definition build :: "Template \<Rightarrow> engine_error + DependencyGraph" where
  "build t =
     (case dangling t of
        n # ns \<Rightarrow> Inl (DanglingReferenceError n)
      | [] \<Rightarrow>
          (let g = map (\<lambda>r. (logical_name r, dependencies t r)) (resources t) in
           case topological_order (length g) g [] of
             Inl e \<Rightarrow> Inl e
           | Inr names \<Rightarrow> Inr \<lparr> edges = g, order = names \<rparr>))"



text \<open>
  Modelled from the spec: the resource states of section 4.5 and ResolvedResource,
  StackEvent and Stack of section 3 (missing). \<open>COMPLETE\<close> and \<open>FAILED\<close> are the
  terminal states of the three operation families. The derived attributes a service
  returns are kept with the resource.
\<close>

datatype operation = Create | Update | Delete

datatype resource_status = PENDING | IN_PROGRESS | COMPLETE operation | FAILED operation

record ResolvedResource =
  res_name :: string
  res_type :: string
  resolved_properties :: "(string \<times> pyval) list"
  physical_id :: "string option"
  attributes :: "(string \<times> string) list"
  status :: resource_status
  last_error :: "engine_error option"

record StackEvent =
  timestamp :: nat
  event_resource :: string
  event_type :: string
  event_status :: resource_status
  status_reason :: "engine_error option"

record Stack =
  stack_name :: string
  template :: Template
  parameter_values :: "(string \<times> string) list"
  events :: "StackEvent list"
  stack_resources :: "(string \<times> ResolvedResource) list"
  rollback_succeeded :: bool

definition is_complete :: "resource_status \<Rightarrow> bool" where
  "is_complete s = (case s of COMPLETE op \<Rightarrow> True | _ \<Rightarrow> False)"

definition is_failed :: "resource_status \<Rightarrow> bool" where
  "is_failed s = (case s of FAILED op \<Rightarrow> True | _ \<Rightarrow> False)"

definition is_terminal :: "resource_status \<Rightarrow> bool" where
  "is_terminal s = (is_complete s \<or> is_failed s)"

definition terminal_success :: "ResolvedResource \<Rightarrow> bool" where
  "terminal_success r = (status r = COMPLETE Create \<or> status r = COMPLETE Update)"

text \<open>
  Modelled from the spec: \<^verbatim>\<open>resolve(expr, context)\<close> of section 4.2 (missing). A
  reference to a resource yields its physical identifier, and fails with
  \<open>UnresolvedDependencyError\<close> unless the resource reached a terminal success status;
  composite expressions resolve their children first.
\<close>

record Context =
  ctx_parameters :: "(string \<times> string) list"
  ctx_pseudo :: "(string \<times> string) list"
  ctx_resources :: "(string \<times> ResolvedResource) list"

definition resolve_ref :: "Context \<Rightarrow> string \<Rightarrow> engine_error + pyval" where
  "resolve_ref ctx n =
     (case map_of (ctx_parameters ctx) n of
        Some v \<Rightarrow> Inr (PStr v)
      | None \<Rightarrow>
          (case map_of (ctx_pseudo ctx) n of
             Some v \<Rightarrow> Inr (PStr v)
           | None \<Rightarrow>
               (case map_of (ctx_resources ctx) n of
                  None \<Rightarrow> Inl (DanglingReferenceError n)
                | Some r \<Rightarrow>
                    (if terminal_success r
                     then (case physical_id r of
                             Some pid \<Rightarrow> Inr (PStr pid)
                           | None \<Rightarrow> Inl (UnresolvedDependencyError n))
                     else Inl (UnresolvedDependencyError n)))))"

definition resolve_att :: "Context \<Rightarrow> string \<Rightarrow> string \<Rightarrow> engine_error + pyval" where
  "resolve_att ctx n a =
     (case map_of (ctx_resources ctx) n of
        None \<Rightarrow> Inl (DanglingReferenceError n)
      | Some r \<Rightarrow>
          (if terminal_success r
           then (case map_of (attributes r) a of
                   Some v \<Rightarrow> Inr (PStr v)
                 | None \<Rightarrow> Inl (UnresolvedDependencyError n))
           else Inl (UnresolvedDependencyError n)))"

fun strings_of :: "pyval list \<Rightarrow> engine_error + string list" where
  "strings_of [] = Inr []"
| "strings_of (v # vs) =
     (case v of
        PStr s \<Rightarrow> (case strings_of vs of Inl e \<Rightarrow> Inl e | Inr ss \<Rightarrow> Inr (s # ss))
      | _ \<Rightarrow> Inl TemplateSchemaError)"

text \<open>Modelled from the spec: \<^verbatim>\<open>resolve(expr, context) -> value\<close>, section 4.2 (missing).\<close>

fun resolve :: "Context \<Rightarrow> expr \<Rightarrow> engine_error + pyval"
  and resolve_list :: "Context \<Rightarrow> expr list \<Rightarrow> engine_error + pyval list"
  and resolve_fields :: "Context \<Rightarrow> (string \<times> expr) list \<Rightarrow> engine_error + (string \<times> pyval) list"
where
  "resolve ctx (Lit v) = Inr v"
| "resolve ctx (Ref n) = resolve_ref ctx n"
| "resolve ctx (GetAtt n a) = resolve_att ctx n a"
| "resolve ctx (Join sep xs) =
     (case resolve_list ctx xs of
        Inl e \<Rightarrow> Inl e
      | Inr vs \<Rightarrow> (case strings_of vs of Inl e \<Rightarrow> Inl e | Inr ss \<Rightarrow> Inr (PStr (join sep ss))))"
| "resolve ctx (IfParam c a b) =
     (case map_of (ctx_parameters ctx) c of
        None \<Rightarrow> Inl (DanglingReferenceError c)
      | Some v \<Rightarrow> (if v = ''true'' then resolve ctx a else resolve ctx b))"
| "resolve ctx (Seq xs) =
     (case resolve_list ctx xs of Inl e \<Rightarrow> Inl e | Inr vs \<Rightarrow> Inr (PList vs))"
| "resolve ctx (Struct fs) =
     (case resolve_fields ctx fs of Inl e \<Rightarrow> Inl e | Inr kvs \<Rightarrow> Inr (PDict kvs))"
| "resolve_list ctx [] = Inr []"
| "resolve_list ctx (x # xs) =
     (case resolve ctx x of
        Inl e \<Rightarrow> Inl e
      | Inr v \<Rightarrow> (case resolve_list ctx xs of Inl e \<Rightarrow> Inl e | Inr vs \<Rightarrow> Inr (v # vs)))"
| "resolve_fields ctx [] = Inr []"
| "resolve_fields ctx ((k, x) # fs) =
     (case resolve ctx x of
        Inl e \<Rightarrow> Inl e
      | Inr v \<Rightarrow> (case resolve_fields ctx fs of Inl e \<Rightarrow> Inl e | Inr kvs \<Rightarrow> Inr ((k, v) # kvs)))"

text \<open>
  Modelled from the spec: \<^verbatim>\<open>create(resolved_resource)\<close> of section 4.4 (the Resource
  Provisioner is missing), dispatched through a lookup keyed by resource type. The
  backing services are a parameter: each answers a creation with an error message or with
  a physical identifier and attributes (section 6).
\<close>

record Service =
  svc_create :: "(string \<times> pyval) list \<Rightarrow> string + string \<times> (string \<times> string) list"

text \<open>Modelled from the spec: \<^verbatim>\<open>create(resolved_resource)\<close>, section 4.4 (missing).\<close>

definition create :: "(string \<Rightarrow> Service option) \<Rightarrow> ResolvedResource \<Rightarrow> ResolvedResource" where
  "create services r =
     (case services (res_type r) of
        None \<Rightarrow> r\<lparr> status := FAILED Create,
                    last_error := Some (UnsupportedResourceTypeError (res_type r)) \<rparr>
      | Some svc \<Rightarrow>
          (case svc_create svc (resolved_properties r) of
             Inl msg \<Rightarrow> r\<lparr> status := FAILED Create,
                           last_error := Some (ResourceOperationError (res_type r) msg) \<rparr>
           | Inr (pid, atts) \<Rightarrow> r\<lparr> physical_id := Some pid, attributes := atts,
                                   status := COMPLETE Create, last_error := None \<rparr>))"

text \<open>
  Modelled from the spec: the apply algorithm of section 4.5 (the Stack Lifecycle Manager
  is missing), as one walk over the topological order. A resource whose dependencies all
  reached terminal success is resolved, moved to \<open>IN_PROGRESS\<close> and handed to the
  provisioner; each transition appends an event. A resource behind a failed one stays
  \<open>PENDING\<close>; independent branches continue. No rollback is attempted.
\<close>

definition append_event :: "ResolvedResource \<Rightarrow> Stack \<Rightarrow> Stack" where
  "append_event r st =
     st\<lparr> events := events st @
            [\<lparr> timestamp = length (events st), event_resource = res_name r, event_type = res_type r,
               event_status = status r, status_reason = last_error r \<rparr>] \<rparr>"

definition set_resource :: "ResolvedResource \<Rightarrow> Stack \<Rightarrow> Stack" where
  "set_resource r st =
     append_event r (st\<lparr> stack_resources := dict_setitem (stack_resources st) (res_name r) r \<rparr>)"

definition context_of :: "Stack \<Rightarrow> Context" where
  "context_of st =
     \<lparr> ctx_parameters = parameter_values st,
       ctx_pseudo = [(''AWS::AccountId'', ''000000000000''), (''AWS::Region'', ''us-east-1''),
                     (''AWS::StackName'', stack_name st)],
       ctx_resources = stack_resources st \<rparr>"

definition ready :: "Stack \<Rightarrow> string list \<Rightarrow> bool" where
  "ready st deps =
     list_all (\<lambda>d. case map_of (stack_resources st) d of
                      Some r \<Rightarrow> terminal_success r
                    | None \<Rightarrow> False) deps"

text \<open>Modelled from the spec: steps 3 to 5 of the apply algorithm, section 4.5 (missing), for one resource.\<close>

definition step :: "(string \<Rightarrow> Service option) \<Rightarrow> DependencyGraph \<Rightarrow> string \<Rightarrow> Stack \<Rightarrow> Stack" where
  "step services g name st =
     (case (map_of (stack_resources st) name, find (\<lambda>s. logical_name s = name) (resources (template st))) of
        (Some r, Some spec) \<Rightarrow>
          (if \<not> ready st (case map_of (edges g) name of Some ds \<Rightarrow> ds | None \<Rightarrow> []) then st
           else
             (case resolve_fields (context_of st) (properties spec) of
                Inl e \<Rightarrow> set_resource (r\<lparr> status := FAILED Create, last_error := Some e \<rparr>) st
              | Inr props \<Rightarrow>
                  (let r1 = r\<lparr> resolved_properties := props, status := IN_PROGRESS \<rparr>;
                       st1 = set_resource r1 st
                   in set_resource (create services r1) st1)))
      | _ \<Rightarrow> st)"

fun walk :: "(string \<Rightarrow> Service option) \<Rightarrow> DependencyGraph \<Rightarrow> string list \<Rightarrow> Stack \<Rightarrow> Stack" where
  "walk services g [] st = st"
| "walk services g (name # names) st = walk services g names (step services g name st)"

definition pending :: "ResourceSpec \<Rightarrow> ResolvedResource" where
  "pending spec =
     \<lparr> res_name = logical_name spec, res_type = resource_type spec, resolved_properties = [],
       physical_id = None, attributes = [], status = PENDING, last_error = None \<rparr>"

definition parameter_defaults :: "Template \<Rightarrow> (string \<times> string) list" where
  "parameter_defaults t =
     concat (map (\<lambda>(n, p). case param_default p of Some d \<Rightarrow> [(n, d)] | None \<Rightarrow> []) (parameters t))"

definition new_stack :: "string \<Rightarrow> Template \<Rightarrow> (string \<times> string) list \<Rightarrow> Stack" where
  "new_stack name t params =
     \<lparr> stack_name = name, template = t, parameter_values = params @ parameter_defaults t,
       events = [], stack_resources = map (\<lambda>s. (logical_name s, pending s)) (resources t),
       rollback_succeeded = False \<rparr>"

text \<open>Modelled from the spec: steps 1 to 5 of the apply algorithm, section 4.5 (missing).\<close>

definition apply_template :: "(string \<Rightarrow> Service option) \<Rightarrow> string \<Rightarrow> Template \<Rightarrow> (string \<times> string) list
    \<Rightarrow> engine_error + Stack" where
  "apply_template services name t params =
     (case build t of
        Inl e \<Rightarrow> Inl e
      | Inr g \<Rightarrow> Inr (walk services g (order g) (new_stack name t params)))"

text \<open>
  Modelled from the spec: the derived stack status, step 6 of section 4.5 (missing):
  \<open>CREATE_COMPLETE\<close> iff every resource is complete, \<open>CREATE_FAILED\<close> iff a resource
  failed and no rollback succeeded, in progress while a resource is not terminal. Where
  the second and the third overlap the failure is reported.
\<close>

datatype stack_status = CREATE_COMPLETE | CREATE_FAILED | CREATE_IN_PROGRESS | ROLLBACK_COMPLETE

text \<open>Modelled from the spec: step 6 of the apply algorithm, section 4.5 (missing).\<close>

definition derive_status :: "bool \<Rightarrow> resource_status list \<Rightarrow> stack_status" where
  "derive_status rolled_back ss =
     (if list_all is_complete ss then CREATE_COMPLETE
      else if list_ex is_failed ss \<and> \<not> rolled_back then CREATE_FAILED
      else if list_ex (\<lambda>s. \<not> is_terminal s) ss then CREATE_IN_PROGRESS
      else ROLLBACK_COMPLETE)"

definition stack_status :: "Stack \<Rightarrow> stack_status" where
  "stack_status st = derive_status (rollback_succeeded st) (map (status \<circ> snd) (stack_resources st))"

text \<open>
  Modelled from the spec: the validation-only path of section 4.5 and the operations
  \<^verbatim>\<open>ValidateTemplate\<close>, \<^verbatim>\<open>CreateStack\<close>, \<^verbatim>\<open>DescribeStacks\<close> and
  \<^verbatim>\<open>DescribeStackResources\<close> of section 6 (missing). The live stacks are an explicit
  store, passed in and returned. A failure leaves the operation as the error envelope of
  \<open>flask_error_response\<close>; invalid syntax has the message
  \<^verbatim>\<open>Template Validation Error\<close>. How capabilities follow from a template is not
  specified and is a parameter. \<open>CreateStack\<close> returns when the walk has ended: the
  state a polling client reaches.
\<close>

record ValidationResult =
  result_parameters :: "(string \<times> ParameterSpec) list"
  result_capabilities :: "string list"

text \<open>Modelled from the spec: the validation-only path, section 4.5 (missing): sections 4.1 to 4.3 without the provisioner.\<close>

definition validate :: "(string \<Rightarrow> pyval option) list \<Rightarrow> (Template \<Rightarrow> string list) \<Rightarrow> string
    \<Rightarrow> engine_error + ValidationResult" where
  "validate formats capabilities body =
     (case parse formats body of
        Inl e \<Rightarrow> Inl e
      | Inr t \<Rightarrow>
          (case build t of
             Inl e \<Rightarrow> Inl e
           | Inr g \<Rightarrow> Inr \<lparr> result_parameters = parameters t, result_capabilities = capabilities t \<rparr>))"

definition error_code :: "engine_error \<Rightarrow> string" where
  "error_code e =
     (case e of
        TemplateSyntaxError \<Rightarrow> ''ValidationError''
      | TemplateSchemaError \<Rightarrow> ''ValidationError''
      | DanglingReferenceError n \<Rightarrow> ''ValidationError''
      | CyclicDependencyError ns \<Rightarrow> ''ValidationError''
      | StackAlreadyExistsError n \<Rightarrow> ''AlreadyExistsException''
      | StackNotFoundError n \<Rightarrow> ''ValidationError''
      | _ \<Rightarrow> ''InternalFailure'')"

definition error_message :: "engine_error \<Rightarrow> string" where
  "error_message e =
     (case e of
        TemplateSyntaxError \<Rightarrow> ''Template Validation Error''
      | TemplateSchemaError \<Rightarrow> ''Template format error''
      | DanglingReferenceError n \<Rightarrow> ''Unresolved resource dependency '' @ n
      | CyclicDependencyError ns \<Rightarrow> ''Circular dependency between resources: '' @ join '', '' ns
      | UnresolvedDependencyError n \<Rightarrow> ''Resource not ready: '' @ n
      | UnsupportedResourceTypeError t \<Rightarrow> ''Unsupported resource type '' @ t
      | ResourceOperationError t msg \<Rightarrow> msg
      | StackAlreadyExistsError n \<Rightarrow> ''Stack already exists: '' @ n
      | StackNotFoundError n \<Rightarrow> ''Stack does not exist: '' @ n)"

text \<open>Modelled from the spec: the error envelope at the boundary, section 6 (the caller of \<open>flask_error_response\<close> is missing).\<close>

definition error_envelope :: "engine_error \<Rightarrow> pyerr + Response" where
  "error_envelope e =
     flask_error_response (error_message e)
       (Some (if error_code e = ''InternalFailure'' then 500 else 400)) (Some (error_code e))"

text \<open>Modelled from the spec: \<^verbatim>\<open>ValidateTemplate(template_body)\<close>, section 6 (missing).\<close>

definition ValidateTemplate :: "(string \<Rightarrow> pyval option) list \<Rightarrow> (Template \<Rightarrow> string list)
    \<Rightarrow> (string \<times> Stack) list \<Rightarrow> string \<Rightarrow> (string \<times> Stack) list \<times> ((pyerr + Response) + ValidationResult)" where
  "ValidateTemplate formats capabilities stacks template_body =
     (stacks,
      case validate formats capabilities template_body of
        Inl e \<Rightarrow> Inl (error_envelope e)
      | Inr v \<Rightarrow> Inr v)"




text \<open>
  Backing services to run the scenarios on: a queue service that answers with the queue
  URL and its ARN, a bucket, a topic and a subscription service; and the same with a
  queue service that is down.
\<close>

definition named :: "string \<Rightarrow> string \<Rightarrow> (string \<times> pyval) list \<Rightarrow> string" where
  "named key dflt props = (case map_of props key of Some (PStr n) \<Rightarrow> n | _ \<Rightarrow> dflt)"

definition queue_service :: Service where
  "queue_service =
     \<lparr> svc_create = (\<lambda>props.
         Inr (''http://localhost:4576/queue/'' @ named ''QueueName'' ''queue-1'' props,
              [(''Arn'', ''arn:aws:sqs:us-east-1:000000000000:'' @ named ''QueueName'' ''queue-1'' props)])) \<rparr>"

definition bucket_service :: Service where
  "bucket_service = \<lparr> svc_create = (\<lambda>props. Inr (named ''BucketName'' ''bucket-1'' props, [])) \<rparr>"

definition topic_service :: Service where
  "topic_service =
     \<lparr> svc_create = (\<lambda>props.
         Inr (''arn:aws:sns:us-east-1:000000000000:'' @ named ''TopicName'' ''topic-1'' props, [])) \<rparr>"

definition subscription_service :: Service where
  "subscription_service =
     \<lparr> svc_create = (\<lambda>props.
         (case (map_of props ''TopicArn'', map_of props ''Endpoint'') of
            (Some (PStr topic), Some (PStr endpoint)) \<Rightarrow> Inr (topic @ '':'' @ endpoint, [])
          | _ \<Rightarrow> Inl ''Missing TopicArn or Endpoint'')) \<rparr>"

definition test_services :: "string \<Rightarrow> Service option" where
  "test_services t =
     (if t = ''queue'' then Some queue_service
      else if t = ''bucket'' then Some bucket_service
      else if t = ''topic'' then Some topic_service
      else if t = ''subscription'' then Some subscription_service
      else None)"

definition failing_services :: "string \<Rightarrow> Service option" where
  "failing_services t =
     (if t = ''queue'' then Some \<lparr> svc_create = (\<lambda>props. Inl ''queue service is down'') \<rparr>
      else test_services t)"

text \<open>
  The template of the scenario of section 8: a bucket \<^verbatim>\<open>B\<close> tagged with
  \<^verbatim>\<open>Ref Q\<close>, a queue \<^verbatim>\<open>Q\<close>, a topic \<^verbatim>\<open>T\<close> and a subscription \<^verbatim>\<open>S\<close> of the
  queue to the topic.
\<close>

definition scenario_body :: string where
  "scenario_body =
     ''{\"Resources\": {'' @
     ''\"B\": {\"Type\": \"bucket\", \"Properties\": {\"BucketName\": \"cf-test-bucket-1\", '' @
       ''\"Tags\": [{\"Key\": \"foobar\", \"Value\": {\"Ref\": \"Q\"}}]}}, '' @
     ''\"Q\": {\"Type\": \"queue\", \"Properties\": {\"QueueName\": \"cf-test-queue-1\"}}, '' @
     ''\"T\": {\"Type\": \"topic\", \"Properties\": {\"TopicName\": \"cf-test-topic-1-1\"}}, '' @
     ''\"S\": {\"Type\": \"subscription\", \"Properties\": {\"TopicArn\": {\"Ref\": \"T\"}, '' @
       ''\"Protocol\": \"sqs\", \"Endpoint\": {\"Fn::GetAtt\": [\"Q\", \"Arn\"]}}}}}''"



text \<open>The body of \<^verbatim>\<open>test_validate_invalid_json_template_should_fail\<close>.\<close>

definition invalid_json :: string where
  "invalid_json = ''{\"this is invalid JSON\"=\"bobbins\"}''"


section \<open>Encoding and decoding strings\<close>

lemma hex_val_digit_char: "d < 16 \<Longrightarrow> hex_val (digit_char d) = Some d"
  by (auto simp: hex_val_def digit_char_def Let_def)

lemma of_char_lt_256: "(of_char c :: nat) < 256"
  by (cases c) simp

lemma unicode_escape_of_char:
  "unicode_escape CHR ''0'' CHR ''0'' (digit_char (of_char c div 16)) (digit_char (of_char c mod 16)) = Some c"
proof -
  let ?n = "of_char c :: nat"
  have lt: "?n < 256" by (rule of_char_lt_256)
  have "?n < 16 * 16" using lt by simp
  then have "?n div 16 < 16" by (rule less_mult_imp_div_less)
  then have a: "hex_val (digit_char (?n div 16)) = Some (?n div 16)"
    by (rule hex_val_digit_char)
  have b: "hex_val (digit_char (?n mod 16)) = Some (?n mod 16)"
    by (intro hex_val_digit_char) simp
  have z: "hex_val CHR ''0'' = Some 0" by (simp add: hex_val_def)
  have "char_of (16 * (?n div 16) + ?n mod 16) = c" by simp
  then show ?thesis by (simp add: unicode_escape_def a b z)
qed

lemma scanstring_escape_char:
  "scanstring (escape_char c @ rest) = map_option (\<lambda>(s, r). (c # s, r)) (scanstring rest)"
proof -
  let ?n = "of_char c :: nat"
  have c_eq: "\<And>d. ?n = of_char d \<Longrightarrow> c = d"
    by simp
  consider (bs) "?n = 0x5C" | (dq) "?n = 0x22" | (b) "?n = 0x08" | (f) "?n = 0x0C" | (n) "?n = 0x0A"
    | (r) "?n = 0x0D" | (t) "?n = 0x09"
    | (plain) "?n \<noteq> 0x5C" "?n \<noteq> 0x22" "0x20 \<le> ?n" "?n \<le> 0x7E"
    | (other) "?n \<noteq> 0x5C" "?n \<noteq> 0x22" "?n \<noteq> 0x08" "?n \<noteq> 0x0C" "?n \<noteq> 0x0A" "?n \<noteq> 0x0D" "?n \<noteq> 0x09"
        "\<not> (0x20 \<le> ?n \<and> ?n \<le> 0x7E)"
    by linarith
  then show ?thesis
  proof cases
    case bs
    then have "c = bslash" by (intro c_eq) (simp add: bslash_def dquote_def)
    then show ?thesis by (simp add: escape_char_def bslash_def dquote_def unescape_char_def)
  next
    case dq
    then have "c = dquote" by (intro c_eq) (simp add: bslash_def dquote_def)
    then show ?thesis by (simp add: escape_char_def bslash_def dquote_def unescape_char_def)
  next
    case b
    then have "c = CHR 0x08" by (intro c_eq) (simp add: bslash_def dquote_def)
    then show ?thesis by (simp add: escape_char_def bslash_def dquote_def unescape_char_def)
  next
    case f
    then have "c = CHR 0x0C" by (intro c_eq) (simp add: bslash_def dquote_def)
    then show ?thesis by (simp add: escape_char_def bslash_def dquote_def unescape_char_def)
  next
    case n
    then have "c = CHR 0x0A" by (intro c_eq) (simp add: bslash_def dquote_def)
    then show ?thesis by (simp add: escape_char_def bslash_def dquote_def unescape_char_def)
  next
    case r
    then have "c = CHR 0x0D" by (intro c_eq) (simp add: bslash_def dquote_def)
    then show ?thesis by (simp add: escape_char_def bslash_def dquote_def unescape_char_def)
  next
    case t
    then have "c = CHR 0x09" by (intro c_eq) (simp add: bslash_def dquote_def)
    then show ?thesis by (simp add: escape_char_def bslash_def dquote_def unescape_char_def)
  next
    case plain
    have "c \<noteq> dquote" using plain(2) by (auto simp: dquote_def)
    moreover have "c \<noteq> bslash" using plain(1) by (auto simp: bslash_def)
    moreover have "escape_char c = [c]" using plain by (simp add: escape_char_def Let_def)
    ultimately show ?thesis using plain(3) by simp
  next
    case other
    have "escape_char c = [bslash, CHR ''u'', CHR ''0'', CHR ''0'', digit_char (?n div 16), digit_char (?n mod 16)]"
      using other by (simp add: escape_char_def Let_def)
    then show ?thesis
      by (simp add: unicode_escape_of_char bslash_def dquote_def)
  qed
qed

lemma scanstring_encoded:
  "scanstring (concat (map escape_char s) @ dquote # rest) = Some (s, rest)"
  by (induction s) (simp_all add: scanstring_escape_char)

lemma scan_once_three_strings:
  "scan_once (Suc (Suc (Suc (Suc (Suc k)))))
     (''{'' @ encode_basestring_ascii k1 @ '': '' @ encode_basestring_ascii v1 @ '', '' @
      encode_basestring_ascii k2 @ '': '' @ encode_basestring_ascii v2 @ '', '' @
      encode_basestring_ascii k3 @ '': '' @ encode_basestring_ascii v3 @ ''}'' @ rest)
   = Some (PDict (dict_setitem (dict_setitem (dict_setitem [] k1 (PStr v1)) k2 (PStr v2)) k3 (PStr v3)), rest)"
  by (simp add: encode_basestring_ascii_def dquote_def is_ws_def scanstring_encoded[unfolded dquote_def])

lemma json_loads_three_strings:
  "json_loads (three_fields k1 v1 k2 v2 k3 v3)
   = Some (PDict (dict_setitem (dict_setitem (dict_setitem [] k1 (PStr v1)) k2 (PStr v2)) k3 (PStr v3)))"
proof -
  let ?b = "three_fields k1 v1 k2 v2 k3 v3"
  have "5 \<le> 2 * length ?b + 2" by (simp add: three_fields_def)
  then obtain k where k: "2 * length ?b + 2 = Suc (Suc (Suc (Suc (Suc k))))"
    by (auto simp: le_iff_add numeral_eq_Suc)
  have ws: "skip_ws ?b = ?b" by (simp add: three_fields_def is_ws_def)
  have "scan_once (2 * length ?b + 2) (skip_ws ?b) = Some (PDict (dict_setitem (dict_setitem (dict_setitem [] k1 (PStr v1)) k2 (PStr v2)) k3 (PStr v3)), [])"
    unfolding ws k using scan_once_three_strings[of k k1 v1 k2 v2 k3 v3 "[]"]
    by (simp add: three_fields_def)
  then show ?thesis by (simp add: json_loads_def)
qed

lemma is_ascii_append [simp]: "is_ascii (a @ b) = (is_ascii a \<and> is_ascii b)"
  by (simp add: is_ascii_def)

lemma is_ascii_Cons [simp]: "is_ascii (c # s) = ((of_char c :: nat) < 0x80 \<and> is_ascii s)"
  by (simp add: is_ascii_def)

lemma is_ascii_Nil [simp]: "is_ascii []"
  by (simp add: is_ascii_def)

lemma utf8_encode_ascii: "is_ascii s \<Longrightarrow> utf8_encode s = s"
  by (induction s) (simp_all add: utf8_encode_def utf8_char_def)

lemma digit_char_ascii: "d < 16 \<Longrightarrow> (of_char (digit_char d) :: nat) < 0x80"
  by (simp add: digit_char_def)

lemma is_ascii_escape_char: "is_ascii (escape_char c)"
proof -
  have "(of_char c :: nat) < 16 * 16" using of_char_lt_256[of c] by simp
  then have "(of_char c :: nat) div 16 < 16" by (rule less_mult_imp_div_less)
  then show ?thesis
    by (simp add: escape_char_def Let_def bslash_def dquote_def digit_char_ascii)
qed

lemma is_ascii_escaped: "is_ascii (concat (map escape_char s))"
  by (induction s) (simp_all add: is_ascii_escape_char)

lemma is_ascii_encode_basestring_ascii [simp]: "is_ascii (encode_basestring_ascii s)"
  by (simp add: encode_basestring_ascii_def dquote_def is_ascii_escaped)

lemma is_ascii_three_fields: "is_ascii (three_fields k1 v1 k2 v2 k3 v3)"
  by (simp add: three_fields_def)

lemma json_dumps_three_strings:
  "json_dumps (PDict [(k1, PStr v1), (k2, PStr v2), (k3, PStr v3)]) = Inr (three_fields k1 v1 k2 v2 k3 v3)"
  by (simp add: three_fields_def)

lemma new_Response_error:
  "new_Response (PStr b) code [(''x-amzn-errortype'', t)] =
     \<lparr> response = PList [PBytes (utf8_encode b)], status_code = code,
       headers = [(''x-amzn-errortype'', t), (''Content-Type'', ''text/html; charset=utf-8''),
                  (''Content-Length'', str_nat (length (utf8_encode b)))] \<rparr>"
  by (simp add: new_Response_def set_data_def headers_contains_def lower_def lower_char_def Let_def)

lemma flask_error_response_eq:
  "flask_error_response msg code_arg error_type_arg =
     (let code = (case code_arg of None \<Rightarrow> 500 | Some c \<Rightarrow> c);
          t = (case error_type_arg of None \<Rightarrow> ''InternalFailure'' | Some t \<Rightarrow> t);
          b = three_fields ''Type'' (if code < 500 then ''User'' else ''Server'') ''message'' msg ''__type'' t
      in Inr \<lparr> response = PList [PBytes b], status_code = code,
               headers = [(''x-amzn-errortype'', t), (''Content-Type'', ''text/html; charset=utf-8''),
                          (''Content-Length'', str_nat (length b))] \<rparr>)"
  unfolding flask_error_response_def Let_def json_dumps_three_strings
  by (simp add: new_Response_error utf8_encode_ascii is_ascii_three_fields)

lemma body_json_three_fields:
  "body_json \<lparr> response = PList [PBytes (three_fields k1 v1 k2 v2 k3 v3)], status_code = code, headers = hs \<rparr>
   = Some (PDict (dict_setitem (dict_setitem (dict_setitem [] k1 (PStr v1)) k2 (PStr v2)) k3 (PStr v3)))"
  by (simp add: body_json_def data_def json_loads_three_strings)





section \<open>The error envelope of \<^verbatim>\<open>flask_error_response\<close>\<close>

lemma error_body_fields:
  "body_json \<lparr> response = PList [PBytes (three_fields ''Type'' ty ''message'' msg ''__type'' t)],
               status_code = code, headers = hs \<rparr>
   = Some (PDict [(''Type'', PStr ty), (''message'', PStr msg), (''__type'', PStr t)])"
  by (simp add: body_json_three_fields)





text \<open>
  Claim C10. Called with a message alone, the function answers with status 500, the body
  fields \<^verbatim>\<open>Type\<close> = \<^verbatim>\<open>"Server"\<close> and \<^verbatim>\<open>__type\<close> = \<^verbatim>\<open>"InternalFailure"\<close>, and the
  header \<^verbatim>\<open>x-amzn-errortype\<close> = \<^verbatim>\<open>InternalFailure\<close>.
\<close>

theorem flask_error_response_defaults:
  "\<exists>r. flask_error_response msg None None = Inr r
       \<and> status_code r = 500
       \<and> body_field r ''Type'' = Some (PStr ''Server'')
       \<and> body_field r ''__type'' = Some (PStr ''InternalFailure'')
       \<and> headers_getitem (headers r) ''x-amzn-errortype'' = Inr ''InternalFailure''"
  by (simp add: flask_error_response_eq body_field_def error_body_fields Let_def)

section \<open>\<^verbatim>\<open>requests_response\<close>\<close>




section \<open>From a flask response to a requests response and back\<close>












section \<open>Validation\<close>

lemma error_envelope_syntax:
  "error_envelope TemplateSyntaxError
     = flask_error_response ''Template Validation Error'' (Some 400) (Some ''ValidationError'')"
  by (simp add: error_envelope_def error_message_def error_code_def)

lemma validate_unparsable:
  "decode formats body = None \<Longrightarrow> validate formats capabilities body = Inl TemplateSyntaxError"
  by (simp add: validate_def parse_def)

text \<open>
  Claim C4. For every template body that no format decodes, \<^verbatim>\<open>ValidateTemplate\<close>
  answers with an error envelope whose \<^verbatim>\<open>Type\<close> is \<^verbatim>\<open>"User"\<close>, whose status is
  400 and whose message is exactly \<^verbatim>\<open>Template Validation Error\<close>, and the store of
  stacks is returned as it was: no stack is created.
\<close>

theorem ValidateTemplate_unparsable:
  "decode formats template_body = None \<Longrightarrow>
     \<exists>env. ValidateTemplate formats capabilities stacks template_body = (stacks, Inl env)
        \<and> result_field env ''Type'' = Some (PStr ''User'')
        \<and> result_status env = Some 400
        \<and> result_field env ''message'' = Some (PStr ''Template Validation Error'')"
  by (simp add: ValidateTemplate_def validate_unparsable error_envelope_syntax
      flask_error_response_eq result_field_def result_status_def body_field_def error_body_fields Let_def)

theorem ValidateTemplate_unparsable_witness:
  "decode [json_loads] invalid_json = None
   \<and> fst (ValidateTemplate [json_loads] (\<lambda>t. []) [] invalid_json) = []
   \<and> (case snd (ValidateTemplate [json_loads] (\<lambda>t. []) [] invalid_json) of
        Inl env \<Rightarrow> result_field env ''message'' = Some (PStr ''Template Validation Error'')
                  \<and> result_field env ''Type'' = Some (PStr ''User'') \<and> result_status env = Some 400
      | Inr v \<Rightarrow> False)"
proof -
  have d: "decode [json_loads] invalid_json = None" by code_simp
  show ?thesis
    using ValidateTemplate_unparsable[OF d, of "\<lambda>t. []" "[]"] d by auto
qed


section \<open>The derived stack status\<close>






lemma status_clauses_unsatisfiable:
  "\<not> (\<exists>f. \<forall>rolled_back ss.
         (f rolled_back ss = CREATE_COMPLETE \<longleftrightarrow> list_all is_complete ss)
       \<and> (f rolled_back ss = CREATE_FAILED \<longleftrightarrow> list_ex is_failed ss \<and> \<not> rolled_back)
       \<and> (\<not> list_all is_terminal ss \<longrightarrow> f rolled_back ss = CREATE_IN_PROGRESS))"
proof
  assume "\<exists>f. \<forall>rolled_back ss.
         (f rolled_back ss = CREATE_COMPLETE \<longleftrightarrow> list_all is_complete ss)
       \<and> (f rolled_back ss = CREATE_FAILED \<longleftrightarrow> list_ex is_failed ss \<and> \<not> rolled_back)
       \<and> (\<not> list_all is_terminal ss \<longrightarrow> f rolled_back ss = CREATE_IN_PROGRESS)"
  then obtain f where f: "\<And>rolled_back ss.
         (f rolled_back ss = CREATE_COMPLETE \<longleftrightarrow> list_all is_complete ss)
       \<and> (f rolled_back ss = CREATE_FAILED \<longleftrightarrow> list_ex is_failed ss \<and> \<not> rolled_back)
       \<and> (\<not> list_all is_terminal ss \<longrightarrow> f rolled_back ss = CREATE_IN_PROGRESS)"
    by blast
  from f[of False "[FAILED Create, PENDING]"]
  show False
    by (auto simp: is_terminal_def is_complete_def is_failed_def)
qed

lemma failed_and_pending_reachable:
  "map_sum id (\<lambda>st. map (status \<circ> snd) (stack_resources st))
     (case parse [json_loads] scenario_body of
        Inl e \<Rightarrow> Inl e
      | Inr t \<Rightarrow> apply_template failing_services ''s'' t [])
   = Inr [PENDING, FAILED Create, COMPLETE Create, PENDING]"
  by code_simp

section \<open>Applying the scenario's template\<close>





end
